theory Spec2Isabelle
  imports Main "HOL-Library.Word"
begin

section \<open>Shared data: chat messages and thrown values\<close>

text \<open>
  A JavaScript string is a \<^typ>\<open>string\<close>: one \<^typ>\<open>char\<close> per UTF-16 code unit, for text
  whose code units are below 256. The message type of the source has the three roles
  \<open>user\<close>, \<open>assistant\<close> and \<open>system\<close>.
\<close>

datatype Role = User | Assistant | System

record Message =
  role :: Role
  content :: string

text \<open>
  A thrown value is either an \<open>Error\<close> object with its message or some other value.
  \<open>message_of\<close> is the source's recurring
  \<^verbatim>\<open>error instanceof Error ? error.message : "Unknown error occurred"\<close>.
\<close>

datatype thrown = Error string | NonError

fun message_of :: "thrown \<Rightarrow> string" where
  "message_of (Error m) = m"
| "message_of NonError = ''Unknown error occurred''"

section \<open>Provider service (src/utils/provider-service.ts, class ProviderService)\<close>

subsection \<open>The three SDK envelopes\<close>

text \<open>
  The SDKs are external. Each one is a function from the request the service builds to
  either a thrown value or a stream; a stream is the list of chunks it delivers and,
  when it breaks, the value thrown after the last chunk.
\<close>

type_synonym 'c sdk_stream = "'c list \<times> thrown option"

record anthropic_delta =
  delta_type :: string
  delta_text :: string

record anthropic_chunk =
  chunk_type :: string
  delta :: "anthropic_delta option"

record openai_delta =
  delta_content :: "string option"

record openai_choice =
  choice_delta :: "openai_delta option"

record openai_chunk =
  choices :: "openai_choice list"

text \<open>A Gemini chunk is read through its \<open>text()\<close> accessor, which may throw.\<close>

record gemini_chunk =
  chunk_text :: "thrown + string"

record anthropic_request =
  a_model :: string
  a_messages :: "(string \<times> string) list"
  a_max_tokens :: nat
  a_stream :: bool

record openai_request =
  o_model :: string
  o_messages :: "(Role \<times> string) list"
  o_stream :: bool

record gemini_content =
  g_role :: string
  g_parts :: "string list"

record gemini_request =
  g_model :: string
  g_contents :: "gemini_content list"

record transport =
  anthropic_create :: "string \<Rightarrow> anthropic_request \<Rightarrow> thrown + anthropic_chunk sdk_stream"
  openai_create :: "string \<Rightarrow> openai_request \<Rightarrow> thrown + openai_chunk sdk_stream"
  gemini_generateContentStream :: "string \<Rightarrow> gemini_request \<Rightarrow> thrown + gemini_chunk sdk_stream"

subsection \<open>The service\<close>

text \<open>
  The provider is the run-time string: the source's \<open>Provider\<close> type is a union of three
  string literals, and callers cast the command-line option to it unchecked. A client
  is represented by the API key it was built with.
\<close>

record ProviderService =
  provider :: string
  apiKey :: string
  model :: string
  anthropicClient :: "string option"
  openaiClient :: "string option"
  geminiClient :: "string option"

definition initializeClient :: "ProviderService \<Rightarrow> ProviderService" where
  "initializeClient s =
     (if provider s = ''anthropic'' then s\<lparr>anthropicClient := Some (apiKey s)\<rparr>
      else if provider s = ''openai'' then s\<lparr>openaiClient := Some (apiKey s)\<rparr>
      else if provider s = ''gemini'' then s\<lparr>geminiClient := Some (apiKey s)\<rparr>
      else s)"

definition new_ProviderService :: "string \<Rightarrow> string \<Rightarrow> string \<Rightarrow> ProviderService" where
  "new_ProviderService p k m =
     initializeClient \<lparr>provider = p, apiKey = k, model = m,
       anthropicClient = None, openaiClient = None, geminiClient = None\<rparr>"

text \<open>The role mappings of the three adapters.\<close>

definition anthropic_messages :: "Message list \<Rightarrow> (string \<times> string) list" where
  "anthropic_messages msgs =
     map (\<lambda>msg. (if role msg = User then ''user'' else ''assistant'', content msg)) msgs"

definition openai_messages :: "Message list \<Rightarrow> (Role \<times> string) list" where
  "openai_messages msgs = map (\<lambda>msg. (role msg, content msg)) msgs"

definition gemini_contents :: "Message list \<Rightarrow> gemini_content list" where
  "gemini_contents msgs =
     map (\<lambda>msg. \<lparr>g_role = (if role msg = User then ''user'' else ''model''),
                 g_parts = [content msg]\<rparr>) msgs"

text \<open>
  What each \<open>for await\<close> loop yields. The result of a generator is the list of fragments
  it yielded and the error it ended with, if any.
\<close>

type_synonym fragments = "string list \<times> thrown option"

definition anthropic_yield :: "anthropic_chunk \<Rightarrow> string list" where
  "anthropic_yield c =
     (if chunk_type c = ''content_block_delta'' then
        (case delta c of
           None \<Rightarrow> []
         | Some d \<Rightarrow> if delta_type d = ''text_delta'' then [delta_text d] else [])
      else [])"

definition openai_yield :: "openai_chunk \<Rightarrow> string list" where
  "openai_yield c =
     (case choices c of
        [] \<Rightarrow> []
      | ch # _ \<Rightarrow>
          (case choice_delta ch of
             None \<Rightarrow> []
           | Some d \<Rightarrow>
               (case delta_content d of
                  None \<Rightarrow> []
                | Some t \<Rightarrow> if t \<noteq> [] then [t] else [])))"

fun gemini_loop :: "gemini_chunk list \<Rightarrow> thrown option \<Rightarrow> fragments" where
  "gemini_loop [] brk = ([], brk)"
| "gemini_loop (c # cs) brk =
     (case chunk_text c of
        Inl e \<Rightarrow> ([], Some e)
      | Inr t \<Rightarrow>
          (case gemini_loop cs brk of
             (fs, r) \<Rightarrow> ((if t \<noteq> [] then [t] else []) @ fs, r)))"

text \<open>The outer \<open>catch\<close> of \<open>streamChat\<close>: an \<open>Error\<close> is rethrown, anything else replaced.\<close>

fun rethrow :: "thrown \<Rightarrow> thrown" where
  "rethrow (Error m) = Error m"
| "rethrow NonError = Error ''Unknown error occurred while streaming chat''"

definition caught :: "fragments \<Rightarrow> fragments" where
  "caught r = (fst r, map_option rethrow (snd r))"

definition streamChat :: "ProviderService \<Rightarrow> transport \<Rightarrow> Message list \<Rightarrow> fragments" where
  "streamChat s T messages = caught
     (if provider s = ''anthropic'' then
        (case anthropicClient s of
           None \<Rightarrow> ([], Some (Error ''Anthropic client not initialized''))
         | Some client \<Rightarrow>
             (case anthropic_create T client
                     \<lparr>a_model = model s, a_messages = anthropic_messages messages,
                      a_max_tokens = 4096, a_stream = True\<rparr> of
                Inl e \<Rightarrow> ([], Some e)
              | Inr (chunks, brk) \<Rightarrow> (concat (map anthropic_yield chunks), brk)))
      else if provider s = ''openai'' then
        (case openaiClient s of
           None \<Rightarrow> ([], Some (Error ''OpenAI client not initialized''))
         | Some client \<Rightarrow>
             (case openai_create T client
                     \<lparr>o_model = model s, o_messages = openai_messages messages,
                      o_stream = True\<rparr> of
                Inl e \<Rightarrow> ([], Some e)
              | Inr (chunks, brk) \<Rightarrow> (concat (map openai_yield chunks), brk)))
      else if provider s = ''gemini'' then
        (case geminiClient s of
           None \<Rightarrow> ([], Some (Error ''Gemini client not initialized''))
         | Some client \<Rightarrow>
             (case gemini_generateContentStream T client
                     \<lparr>g_model = model s, g_contents = gemini_contents messages\<rparr> of
                Inl e \<Rightarrow> ([], Some e)
              | Inr (chunks, brk) \<Rightarrow> gemini_loop chunks brk))
      else ([], None))"

subsection \<open>A mock transport for the three envelopes\<close>

datatype mock_event = TextDelta string | Metadata | ToolDelta string

fun anthropic_envelope :: "mock_event \<Rightarrow> anthropic_chunk" where
  "anthropic_envelope (TextDelta t) =
     \<lparr>chunk_type = ''content_block_delta'',
      delta = Some \<lparr>delta_type = ''text_delta'', delta_text = t\<rparr>\<rparr>"
| "anthropic_envelope Metadata = \<lparr>chunk_type = ''ping'', delta = None\<rparr>"
| "anthropic_envelope (ToolDelta j) =
     \<lparr>chunk_type = ''content_block_delta'',
      delta = Some \<lparr>delta_type = ''input_json_delta'', delta_text = j\<rparr>\<rparr>"

fun openai_envelope :: "mock_event \<Rightarrow> openai_chunk" where
  "openai_envelope (TextDelta t) =
     \<lparr>choices = [\<lparr>choice_delta = Some \<lparr>delta_content = Some t\<rparr>\<rparr>]\<rparr>"
| "openai_envelope Metadata = \<lparr>choices = []\<rparr>"
| "openai_envelope (ToolDelta j) =
     \<lparr>choices = [\<lparr>choice_delta = Some \<lparr>delta_content = None\<rparr>\<rparr>]\<rparr>"

fun gemini_envelope :: "mock_event \<Rightarrow> gemini_chunk" where
  "gemini_envelope (TextDelta t) = \<lparr>chunk_text = Inr t\<rparr>"
| "gemini_envelope Metadata = \<lparr>chunk_text = Inr []\<rparr>"
| "gemini_envelope (ToolDelta j) = \<lparr>chunk_text = Inr []\<rparr>"

definition mock_transport :: "mock_event list \<Rightarrow> transport" where
  "mock_transport evs =
     \<lparr>anthropic_create = (\<lambda>k req. Inr (map anthropic_envelope evs, None)),
      openai_create = (\<lambda>k req. Inr (map openai_envelope evs, None)),
      gemini_generateContentStream = (\<lambda>k req. Inr (map gemini_envelope evs, None))\<rparr>"

fun event_text :: "mock_event \<Rightarrow> string" where
  "event_text (TextDelta t) = t"
| "event_text Metadata = []"
| "event_text (ToolDelta j) = []"

definition reply_text :: "mock_event list \<Rightarrow> string" where
  "reply_text evs = concat (map event_text evs)"

definition gemini_fragment :: "mock_event \<Rightarrow> string list" where
  "gemini_fragment e = (if event_text e \<noteq> [] then [event_text e] else [])"

section \<open>JavaScript string operations used by the commands\<close>

text \<open>
  White space as \<open>\s\<close> and \<open>String.prototype.trim\<close> see it, among the code units below
  256: tab, line feed, vertical tab, form feed, carriage return, space and no-break
  space.
\<close>

definition js_space :: "char \<Rightarrow> bool" where
  "js_space c = (c \<in> set [CHR 0x09, CHR 0x0A, CHR 0x0B, CHR 0x0C, CHR 0x0D, CHR 0x20, CHR 0xA0])"

definition trim :: "string \<Rightarrow> string" where
  "trim s = rev (dropWhile js_space (rev (dropWhile js_space s)))"

text \<open>\<^verbatim>\<open>s.replace(/\s+/g, " ")\<close>: every maximal run of white space becomes one space.\<close>

function collapse_ws :: "string \<Rightarrow> string" where
  "collapse_ws [] = []"
| "collapse_ws (c # cs) =
     (if js_space c then CHR '' '' # collapse_ws (dropWhile js_space cs)
      else c # collapse_ws cs)"
  by pat_completeness auto
termination
  by (relation "measure length") (auto simp: less_Suc_eq_le length_dropWhile_le)

text \<open>The clean-up every command applies to a streamed reply.\<close>

definition cleanup :: "string \<Rightarrow> string" where
  "cleanup s = trim (collapse_ws s)"

text \<open>\<^verbatim>\<open>s.split(" ")\<close>: the pieces between single spaces, empty pieces kept.\<close>

fun split_space :: "string \<Rightarrow> string list" where
  "split_space [] = [[]]"
| "split_space (c # cs) =
     (if c = CHR '' '' then [] # split_space cs
      else (c # hd (split_space cs)) # tl (split_space cs))"

text \<open>Decimal rendering of a number, as string interpolation does for an exit code.\<close>

definition digit_char :: "nat \<Rightarrow> char" where
  "digit_char d = char_of (of_char (CHR ''0'') + d)"

function show_nat :: "nat \<Rightarrow> string" where
  "show_nat n = (if n < 10 then [digit_char n] else show_nat (n div 10) @ [digit_char (n mod 10)])"
  by pat_completeness auto
termination
  by (relation "measure id") auto

definition show_int :: "int \<Rightarrow> string" where
  "show_int i = (if i < 0 then CHR ''-'' # show_nat (nat (- i)) else show_nat (nat i))"

text \<open>The decimal digits, as \<open>\d\<close> sees them.\<close>

definition is_digit :: "char \<Rightarrow> bool" where
  "is_digit c = (48 \<le> (of_char c :: nat) \<and> (of_char c :: nat) \<le> 57)"

section \<open>Command executor (src/unnamed/part_003: executeCommand)\<close>

text \<open>
  The module the commands import as \<open>utils/command-executor\<close>.
\<close>

datatype command_type = Git | Shell | Script

fun type_name :: "command_type \<Rightarrow> string" where
  "type_name Git = ''git''"
| "type_name Shell = ''shell''"
| "type_name Script = ''script''"

record exec_options =
  opt_type :: command_type
  splitArgs :: bool

definition default_options :: exec_options where
  "default_options = \<lparr>opt_type = Shell, splitArgs = False\<rparr>"

text \<open>The arguments of one \<open>child_process.spawn\<close> call.\<close>

record launch =
  program :: string
  args :: "string list"
  in_shell :: bool

definition hasSpecialChars :: "string \<Rightarrow> bool" where
  "hasSpecialChars command = list_ex (\<lambda>c. c \<in> set ''&|;'') command"

definition launch_of :: "exec_options \<Rightarrow> string \<Rightarrow> launch" where
  "launch_of options command =
     (if opt_type options = Git then
        (if hasSpecialChars command
         then \<lparr>program = command, args = [], in_shell = True\<rparr>
         else \<lparr>program = ''git'', args = tl (split_space command), in_shell = False\<rparr>)
      else
        \<lparr>program = (if splitArgs options then hd (split_space command) else command),
         args = (if splitArgs options then tl (split_space command) else []),
         in_shell = (opt_type options = Shell)\<rparr>)"

text \<open>
  What the Executor reports for a launch: the process exits with a code (none when a
  signal killed it) and the text captured on standard error, or the launch itself fails.
\<close>

datatype exit = Exited "int option" string | SpawnError string

fun show_code :: "int option \<Rightarrow> string" where
  "show_code None = ''null''"
| "show_code (Some n) = show_int n"

text \<open>The message of the error the launch promise rejects with; \<open>None\<close> when it resolves.\<close>

fun failure :: "exit \<Rightarrow> string option" where
  "failure (SpawnError m) = Some m"
| "failure (Exited code stderr) =
     (if code = Some 0 then None
      else Some (if trim stderr \<noteq> [] then trim stderr
                 else ''Command failed with exit code '' @ show_code code))"

text \<open>
  The collaborators of a session, each indexed by the attempt counter of the call that
  consults it: the Executor, the transport behind the provider service, and the user's
  answer to the confirmation of a suggested fix.
\<close>

record world =
  spawn :: "nat \<Rightarrow> launch \<Rightarrow> exit"
  net :: "nat \<Rightarrow> transport"
  confirm :: "nat \<Rightarrow> string \<Rightarrow> bool"

definition maxAttempts :: nat where
  "maxAttempts = 3"

definition retry_message :: "exec_options \<Rightarrow> string \<Rightarrow> string \<Rightarrow> Message" where
  "retry_message options command errorMessage =
     \<lparr>role = User,
      content = ''The '' @ type_name (opt_type options) @ '' command '' @ [CHR 0x22] @ command
        @ [CHR 0x22] @ '' failed with error: '' @ errorMessage
        @ ''. Please provide a corrected command that will work. Only respond with the exact command to run, no explanations.''\<rparr>"

text \<open>
  What a session does, in order: processes launched, correction requests sent to the
  provider, suggested fixes put to the user for confirmation, and the final
  \<open>Failed after 3 attempts. Giving up.\<close> report.
\<close>

datatype event = Launched launch | Asked "Message list" | Offered string | GaveUp

datatype outcome = Returned | Threw thrown

function executeCommand ::
  "world \<Rightarrow> ProviderService \<Rightarrow> string \<Rightarrow> nat \<Rightarrow> exec_options \<Rightarrow> event list \<times> outcome" where
  "executeCommand w service command attempts options =
     (case failure (spawn w attempts (launch_of options command)) of
        None \<Rightarrow> ([Launched (launch_of options command)], Returned)
      | Some errorMessage \<Rightarrow>
          if attempts \<ge> maxAttempts - 1 then
            ([Launched (launch_of options command), GaveUp], Threw (Error errorMessage))
          else
            (case streamChat service (net w attempts)
                    [retry_message options command errorMessage] of
               (chunks, Some err) \<Rightarrow>
                 ([Launched (launch_of options command),
                   Asked [retry_message options command errorMessage]], Threw err)
             | (chunks, None) \<Rightarrow>
                 if cleanup (concat chunks) = command then
                   ([Launched (launch_of options command),
                     Asked [retry_message options command errorMessage]],
                    Threw (Error ''AI couldn't find a better solution''))
                 else if confirm w attempts (cleanup (concat chunks)) then
                   (case executeCommand w service (cleanup (concat chunks)) (attempts + 1)
                           options of
                      (evs, r) \<Rightarrow>
                        ([Launched (launch_of options command),
                          Asked [retry_message options command errorMessage],
                          Offered (cleanup (concat chunks))] @ evs, r))
                 else
                   ([Launched (launch_of options command),
                     Asked [retry_message options command errorMessage],
                     Offered (cleanup (concat chunks))],
                    Threw (Error ''User cancelled retry''))))"
  by pat_completeness auto
termination
  by (relation "measure (\<lambda>(w, service, command, attempts, options). maxAttempts - attempts)")
    (auto simp: maxAttempts_def)

declare executeCommand.simps [simp del]

text \<open>The launches and the correction requests among the events of a session.\<close>

fun launches :: "event list \<Rightarrow> launch list" where
  "launches [] = []"
| "launches (Launched l # evs) = l # launches evs"
| "launches (_ # evs) = launches evs"

fun requests :: "event list \<Rightarrow> Message list list" where
  "requests [] = []"
| "requests (Asked ms # evs) = ms # requests evs"
| "requests (_ # evs) = requests evs"

fun offers :: "event list \<Rightarrow> string list" where
  "offers [] = []"
| "offers (Offered c # evs) = c # offers evs"
| "offers (_ # evs) = offers evs"

text \<open>
  A concrete session for the examples: every launch exits with code 1 and a message on
  standard error that names the attempt, the provider answers the attempt's request with
  a fix that names the attempt, and the user accepts every fix.
\<close>

definition failing_world :: world where
  "failing_world =
     \<lparr>spawn = (\<lambda>n l. Exited (Some 1) (''error '' @ show_nat n)),
      net = (\<lambda>n. mock_transport [TextDelta ''fix'', Metadata, TextDelta (show_nat n)]),
      confirm = (\<lambda>n c. True)\<rparr>"

text \<open>
  A session whose provider repeats the failed command, spread over two fragments with
  extra white space.
\<close>

definition echo_world :: world where
  "echo_world =
     \<lparr>spawn = (\<lambda>n l. Exited (Some 2) ''ls: cannot access''),
      net = (\<lambda>n. mock_transport [TextDelta ''ls  '', TextDelta [CHR ''-'', CHR ''l'', CHR ''a'', CHR 0x0A]]),
      confirm = (\<lambda>n c. True)\<rparr>"

section \<open>Credential vault (src/utils/provider-service.ts, class CredentialsManager)\<close>

text \<open>
  The module the commands import as \<open>utils/credentials\<close>; it follows the provider
  service in the source file.
\<close>

type_synonym byte = "8 word"

subsection \<open>Hexadecimal text of a buffer\<close>

definition hex_digit :: "nat \<Rightarrow> char" where
  "hex_digit d = ''0123456789abcdef'' ! d"

definition to_hex :: "byte list \<Rightarrow> string" where
  "to_hex bs = concat (map (\<lambda>b. [hex_digit (unat b div 16), hex_digit (unat b mod 16)]) bs)"

definition hex_val :: "char \<Rightarrow> nat option" where
  "hex_val c =
     (let n = (of_char c :: nat) in
      if 48 \<le> n \<and> n \<le> 57 then Some (n - 48)
      else if 97 \<le> n \<and> n \<le> 102 then Some (n - 87)
      else if 65 \<le> n \<and> n \<le> 70 then Some (n - 55)
      else None)"

text \<open>
  Decoding as \<open>Buffer.from(s, "hex")\<close> does it: pairs of digits are read until the first
  pair that is not hexadecimal, and a trailing single character is dropped.
\<close>

fun from_hex :: "string \<Rightarrow> byte list" where
  "from_hex (a # b # rest) =
     (case hex_val a of
        None \<Rightarrow> []
      | Some h \<Rightarrow>
          (case hex_val b of
             None \<Rightarrow> []
           | Some l \<Rightarrow> of_nat (16 * h + l) # from_hex rest))"
| "from_hex _ = []"

subsection \<open>JSON documents as JavaScript values\<close>

text \<open>
  What \<open>JSON.parse\<close> returns and the manager then changes in memory. A finite number is
  \<open>m * 2 ^ e\<close>, as every double is; a literal beyond the double range parses to an
  infinite number. An array has its elements and, once the code has assigned to it under
  a name, named properties beside them; the arrays of a freshly parsed document have
  none. An object is the list of its own properties, each name once.
\<close>

datatype js =
  JNull
  | JBool bool
  | JNum int int
  | JInfinite
  | JStr string
  | JArr "js list" "(string \<times> js) list"
  | JObj "(string \<times> js) list"

fun js_truthy :: "js \<Rightarrow> bool" where
  "js_truthy JNull = False"
| "js_truthy (JBool b) = b"
| "js_truthy (JNum m e) = (m \<noteq> 0)"
| "js_truthy JInfinite = True"
| "js_truthy (JStr s) = (s \<noteq> [])"
| "js_truthy (JArr xs ps) = True"
| "js_truthy (JObj kvs) = True"

text \<open>Truth of a value that may be \<open>undefined\<close>.\<close>

fun truthy_opt :: "js option \<Rightarrow> bool" where
  "truthy_opt None = False"
| "truthy_opt (Some v) = js_truthy v"

text \<open>The array index a property name denotes, if it is a canonical decimal numeral.\<close>

definition index_key :: "string \<Rightarrow> nat option" where
  "index_key k =
     (if k \<noteq> [] \<and> list_all is_digit k \<and> (length k = 1 \<or> hd k \<noteq> CHR ''0'')
      then Some (foldl (\<lambda>n c. 10 * n + (of_char c - 48)) 0 k)
      else None)"

text \<open>
  Reading property \<open>k\<close> of a value that is neither \<open>undefined\<close> nor \<open>null\<close>: the value's
  own property, or \<open>None\<close> for \<open>undefined\<close>. Properties inherited from the built-in
  prototypes are left out: none of them is called \<open>credentials\<close>, \<open>apiKey\<close>, \<open>iv\<close>,
  \<open>encrypted\<close> or like a provider identity, and the inherited ones are functions and
  prototype objects, which have no \<open>apiKey\<close> of their own.
\<close>

fun own :: "js \<Rightarrow> string \<Rightarrow> js option" where
  "own (JObj kvs) k = map_of kvs k"
| "own (JArr xs ps) k =
     (case index_key k of
        Some i \<Rightarrow> if i < length xs then Some (xs ! i) else None
      | None \<Rightarrow> if k = ''length'' then Some (JNum (int (length xs)) 0) else map_of ps k)"
| "own (JStr s) k =
     (case index_key k of
        Some i \<Rightarrow> if i < length s then Some (JStr [s ! i]) else None
      | None \<Rightarrow> if k = ''length'' then Some (JNum (int (length s)) 0) else None)"
| "own v k = None"

fun put :: "string \<Rightarrow> js \<Rightarrow> (string \<times> js) list \<Rightarrow> (string \<times> js) list" where
  "put k x [] = [(k, x)]"
| "put k x (p # ps) = (if fst p = k then (k, x) # ps else p # put k x ps)"

text \<open>
  The assignment \<open>v[k] = x\<close> in strict mode (the source is an ES module), for a name \<open>k\<close>
  that is neither an array index nor \<open>length\<close>, as every name the manager writes is. An
  object takes the property, an array takes it as a named property, and on a primitive
  value the assignment throws a \<open>TypeError\<close>: \<open>None\<close>.
\<close>

fun set_own :: "js \<Rightarrow> string \<Rightarrow> js \<Rightarrow> js option" where
  "set_own (JObj kvs) k x = Some (JObj (put k x kvs))"
| "set_own (JArr xs ps) k x = Some (JArr xs (put k x ps))"
| "set_own v k x = None"

text \<open>
  \<open>JSON.parse (JSON.stringify v)\<close>: what a later read finds of a written document. The
  named properties of arrays are not written, and an infinite number is written as
  \<open>null\<close>.
\<close>

primrec persist :: "js \<Rightarrow> js" where
  "persist JNull = JNull"
| "persist (JBool b) = JBool b"
| "persist (JNum m e) = JNum m e"
| "persist JInfinite = JNull"
| "persist (JStr s) = JStr s"
| "persist (JArr xs ps) = JArr (map persist xs) []"
| "persist (JObj kvs) = JObj (map (map_prod id persist) kvs)"

subsection \<open>The runtime library\<close>

text \<open>
  Node's \<open>crypto\<close> and \<open>Buffer\<close> are external. \<open>cipher_encrypt iv plain\<close> and
  \<open>cipher_decrypt iv cipher\<close> stand for AES-256-CBC under the manager's master key
  \<^verbatim>\<open>scryptSync("shellai-secret-key", "salt", 32)\<close>, the latter for \<open>update\<close> followed by
  \<open>final\<close>, which throws on a bad final block. \<open>iv_rejected\<close> is what \<open>createDecipheriv\<close>
  throws for an initialisation vector it does not accept. \<open>utf8_encode\<close> and
  \<open>utf8_decode\<close> are the string encodings \<open>update\<close> and \<open>final\<close> are asked for.
  \<open>Buffer_from\<close> is \<open>Buffer.from\<close> on a value that is not a string. The remaining fields
  are the errors whose wording the runtime chooses: for hexadecimal text of odd length
  given to \<open>update\<close>, for data given to \<open>update\<close> that is not a string, and the
  \<open>TypeError\<close> of the language for a property read on \<open>undefined\<close> or \<open>null\<close> or a
  property write on a primitive value.
\<close>

record runtime =
  cipher_encrypt :: "byte list \<Rightarrow> byte list \<Rightarrow> byte list"
  cipher_decrypt :: "byte list \<Rightarrow> byte list \<Rightarrow> thrown + byte list"
  iv_rejected :: "byte list \<Rightarrow> thrown option"
  utf8_encode :: "string \<Rightarrow> byte list"
  utf8_decode :: "byte list \<Rightarrow> string"
  Buffer_from :: "js option \<Rightarrow> thrown + byte list"
  hex_length_error :: thrown
  data_type_error :: thrown
  type_error :: thrown

subsection \<open>The credentials file\<close>

record encrypted_key =
  iv :: string
  encrypted :: string

definition key_object :: "encrypted_key \<Rightarrow> js" where
  "key_object k = JObj [(''iv'', JStr (iv k)), (''encrypted'', JStr (encrypted k))]"

text \<open>
  The file cannot be read, or holds text that \<open>JSON.parse\<close> rejects, or parses to a
  value. \<open>write_error\<close> is what \<open>mkdir\<close> or \<open>writeFile\<close> reject with when the directory
  cannot be written.
\<close>

datatype credentials_file = Missing | Unparsable | Parsed js

record disk =
  credentials_file :: credentials_file
  write_error :: "thrown option"

text \<open>
  The source's \<open>Provider\<close> type, the parameter type of \<open>saveCredentials\<close>. None of the
  three names is a property of a built-in prototype, an array index or \<open>length\<close>, so
  under them a property is read and written as an own property.
\<close>

datatype Provider = Anthropic | OpenAI | Gemini

fun provider_name :: "Provider \<Rightarrow> string" where
  "provider_name Anthropic = ''anthropic''"
| "provider_name OpenAI = ''openai''"
| "provider_name Gemini = ''gemini''"

text \<open>\<open>encrypt\<close> with the sixteen bytes \<open>randomBytes(16)\<close> returned.\<close>

definition encrypt :: "runtime \<Rightarrow> byte list \<Rightarrow> string \<Rightarrow> encrypted_key" where
  "encrypt lib random_iv text =
     \<lparr>iv = to_hex random_iv,
      encrypted = to_hex (cipher_encrypt lib random_iv (utf8_encode lib text))\<rparr>"

text \<open>
  \<open>decrypt\<close> receives the two members of the stored key as they are, \<open>undefined\<close> when
  missing. The vector is decoded by \<open>Buffer.from\<close> and handed to \<open>createDecipheriv\<close>;
  then \<open>update\<close> refuses cipher text that is not a string or has an odd number of
  characters, and decodes the rest.
\<close>

definition decrypt :: "runtime \<Rightarrow> js option \<Rightarrow> js option \<Rightarrow> thrown + string" where
  "decrypt lib enc iv_hex =
     (case (case iv_hex of Some (JStr s) \<Rightarrow> Inr (from_hex s) | _ \<Rightarrow> Buffer_from lib iv_hex) of
        Inl e \<Rightarrow> Inl e
      | Inr v \<Rightarrow>
          (case iv_rejected lib v of
             Some e \<Rightarrow> Inl e
           | None \<Rightarrow>
               (case enc of
                  Some (JStr c) \<Rightarrow>
                    if odd (length c) then Inl (hex_length_error lib)
                    else
                      (case cipher_decrypt lib v (from_hex c) of
                         Inl e \<Rightarrow> Inl e
                       | Inr plain \<Rightarrow> Inr (utf8_decode lib plain))
                | _ \<Rightarrow> Inl (data_type_error lib))))"

definition fresh_credentials :: js where
  "fresh_credentials = JObj [(''credentials'', JObj [])]"

text \<open>
  \<open>readCredentialsData\<close>: the parsed document, given an empty \<open>credentials\<close> member when
  it has none that counts as true; the fresh document when anything inside the \<open>try\<close>
  throws, as reading a member of \<open>null\<close> and assigning to a primitive value do.
\<close>

definition readCredentialsData :: "disk \<Rightarrow> js" where
  "readCredentialsData d =
     (case credentials_file d of
        Parsed parsed \<Rightarrow>
          (if parsed = JNull then fresh_credentials
           else if truthy_opt (own parsed ''credentials'') then parsed
           else
             (case set_own parsed ''credentials'' (JObj []) of
                None \<Rightarrow> fresh_credentials
              | Some parsed' \<Rightarrow> parsed'))
      | _ \<Rightarrow> fresh_credentials)"

text \<open>
  \<open>saveCredentials\<close>, for a provider of its declared type. The record is assigned in
  place, under \<open>data.credentials\<close>: as a new entry when the provider has none that
  counts as true, else as the \<open>apiKey\<close> of the entry found. An assignment to a primitive
  value throws. The whole document is then written back, and the file holds what
  \<open>JSON.stringify\<close> wrote of it.
\<close>

definition saveCredentials ::
  "runtime \<Rightarrow> byte list \<Rightarrow> disk \<Rightarrow> Provider \<Rightarrow> string \<Rightarrow> thrown + disk" where
  "saveCredentials lib random_iv d prov key =
     (case write_error d of
        Some e \<Rightarrow> Inl e
      | None \<Rightarrow>
          (let data = readCredentialsData d;
               sealed = key_object (encrypt lib random_iv key)
           in case own data ''credentials'' of
                None \<Rightarrow> Inl (type_error lib)
              | Some creds \<Rightarrow>
                  if creds = JNull then Inl (type_error lib)
                  else
                    (case (case own creds (provider_name prov) of
                             None \<Rightarrow> set_own creds (provider_name prov) (JObj [(''apiKey'', sealed)])
                           | Some cfg \<Rightarrow>
                               if js_truthy cfg then
                                 (case set_own cfg ''apiKey'' sealed of
                                    None \<Rightarrow> None
                                  | Some cfg' \<Rightarrow> set_own creds (provider_name prov) cfg')
                               else set_own creds (provider_name prov) (JObj [(''apiKey'', sealed)])) of
                       None \<Rightarrow> Inl (type_error lib)
                     | Some creds' \<Rightarrow>
                         (case set_own data ''credentials'' creds' of
                            None \<Rightarrow> Inl (type_error lib)
                          | Some data' \<Rightarrow>
                              Inr (d\<lparr>credentials_file := Parsed (persist data')\<rparr>)))))"

text \<open>
  \<open>getCredentials\<close>, in a process that has not itself attached a key to a built-in
  object. The provider is the run-time string: the commands pass the command-line option
  unchecked.
\<close>

definition getCredentials :: "runtime \<Rightarrow> disk \<Rightarrow> string \<Rightarrow> thrown + string option" where
  "getCredentials lib d prov =
     (case own (readCredentialsData d) ''credentials'' of
        None \<Rightarrow> Inl (type_error lib)
      | Some creds \<Rightarrow>
          if creds = JNull then Inl (type_error lib)
          else
            (case own creds prov of
               None \<Rightarrow> Inr None
             | Some providerConfig \<Rightarrow>
                 (case own providerConfig ''apiKey'' of
                    None \<Rightarrow> Inr None
                  | Some k \<Rightarrow>
                      if \<not> js_truthy k then Inr None
                      else
                        (case decrypt lib (own k ''encrypted'') (own k ''iv'') of
                           Inl e \<Rightarrow> Inl e
                         | Inr plain \<Rightarrow> Inr (Some plain)))))"

text \<open>
  The key the file holds for a provider: \<open>data.credentials[provider]?.apiKey\<close> when it
  counts as true, the test of \<open>getCredentials\<close> and \<open>listProviders\<close>.
\<close>

definition stored_apiKey :: "disk \<Rightarrow> string \<Rightarrow> js option" where
  "stored_apiKey d prov =
     (case own (readCredentialsData d) ''credentials'' of
        None \<Rightarrow> None
      | Some creds \<Rightarrow>
          (case own creds prov of
             None \<Rightarrow> None
           | Some providerConfig \<Rightarrow>
               (case own providerConfig ''apiKey'' of
                  None \<Rightarrow> None
                | Some k \<Rightarrow> if js_truthy k then Some k else None)))"

text \<open>
  Whether the place of a provider's record is free of arrays: neither the parsed
  document, nor its \<open>credentials\<close> member, nor the provider's entry in it is an array.
\<close>

definition no_array_above :: "credentials_file \<Rightarrow> string \<Rightarrow> bool" where
  "no_array_above f prov =
     (case f of
        Parsed (JArr xs ps) \<Rightarrow> False
      | Parsed (JObj kvs) \<Rightarrow>
          (case map_of kvs ''credentials'' of
             Some (JArr xs ps) \<Rightarrow> False
           | Some (JObj creds) \<Rightarrow>
               (case map_of creds prov of
                  Some (JArr xs ps) \<Rightarrow> False
                | _ \<Rightarrow> True)
           | _ \<Rightarrow> True)
      | _ \<Rightarrow> True)"


text \<open>
  A stand-in library for the examples, not AES: the cipher text is the plain text behind
  a copy of the initialisation vector, which decryption checks; vectors must have
  sixteen bytes. Text is encoded one byte per character.
\<close>

definition toy_runtime :: runtime where
  "toy_runtime =
     \<lparr>cipher_encrypt = (\<lambda>v plain. v @ plain),
      cipher_decrypt = (\<lambda>v c. if take 16 c = v then Inr (drop 16 c) else Inl (Error ''bad decrypt'')),
      iv_rejected = (\<lambda>v. if length v \<noteq> 16 then Some (Error ''Invalid initialization vector'')
                          else None),
      utf8_encode = map (\<lambda>c. of_nat (of_char c)),
      utf8_decode = map (\<lambda>b. char_of (unat b)),
      Buffer_from = (\<lambda>v. Inl (Error ''The first argument must be of type string'')),
      hex_length_error = Error ''The encoding is invalid for data of odd length'',
      data_type_error = Error ''The data argument must be of type string'',
      type_error = Error ''Cannot create property on a primitive value''\<rparr>"

definition sixteen_bytes :: "byte list" where
  "sixteen_bytes = map of_nat [0 ..< 16]"

section \<open>Regular expressions of the command checks\<close>

text \<open>
  The fragment of JavaScript regular expressions the source uses, without flags:
  literals, character classes with \<open>\w\<close>, \<open>\d\<close> and \<open>\s\<close>, the dot, the anchors, the word
  boundary, sequence, alternation, star and plus.
\<close>

datatype cset = One char | Range char char | WordChars | Digits | Spaces

definition is_word :: "char \<Rightarrow> bool" where
  "is_word c =
     ((65 \<le> (of_char c :: nat) \<and> (of_char c :: nat) \<le> 90) \<or>
      (97 \<le> (of_char c :: nat) \<and> (of_char c :: nat) \<le> 122) \<or>
      is_digit c \<or> c = CHR ''_'')"

fun in_cset :: "char \<Rightarrow> cset \<Rightarrow> bool" where
  "in_cset c (One d) = (c = d)"
| "in_cset c (Range lo hi) =
     ((of_char lo :: nat) \<le> of_char c \<and> (of_char c :: nat) \<le> of_char hi)"
| "in_cset c WordChars = is_word c"
| "in_cset c Digits = is_digit c"
| "in_cset c Spaces = js_space c"

datatype regex =
  Eps
  | Chr char
  | Class "cset list"
  | Dot
  | Bol
  | Eol
  | WordB
  | Seq regex regex
  | Alt regex regex
  | Star regex
  | Plus regex

text \<open>The dot matches any character but a line terminator.\<close>

definition line_terminator :: "char \<Rightarrow> bool" where
  "line_terminator c = (c = CHR 0x0A \<or> c = CHR 0x0D)"

text \<open>Whether position \<open>i\<close> of \<open>s\<close> lies between a word character and a non-word one.\<close>

definition word_before :: "string \<Rightarrow> nat \<Rightarrow> bool" where
  "word_before s i = (0 < i \<and> i \<le> length s \<and> is_word (s ! (i - 1)))"

definition word_after :: "string \<Rightarrow> nat \<Rightarrow> bool" where
  "word_after s i = (i < length s \<and> is_word (s ! i))"

text \<open>
  The positions reachable from a set of positions by repeating a step, found breadth
  first; \<open>fuel\<close> bounds the rounds, and each round but the last finds a new position.
\<close>

fun closure :: "(nat \<Rightarrow> nat list) \<Rightarrow> nat \<Rightarrow> nat list \<Rightarrow> nat list \<Rightarrow> nat list" where
  "closure step 0 frontier seen = seen"
| "closure step (Suc fuel) frontier seen =
     (let new = filter (\<lambda>j. j \<notin> set seen) (remdups (concat (map step frontier)))
      in if new = [] then seen else closure step fuel new (seen @ new))"

text \<open>\<open>ends r s i\<close>: the positions where a match of \<open>r\<close> that starts at position \<open>i\<close> of \<open>s\<close> can end.\<close>

primrec ends :: "regex \<Rightarrow> string \<Rightarrow> nat \<Rightarrow> nat list" where
  "ends Eps s i = [i]"
| "ends (Chr c) s i = (if i < length s \<and> s ! i = c then [Suc i] else [])"
| "ends (Class cs) s i = (if i < length s \<and> list_ex (in_cset (s ! i)) cs then [Suc i] else [])"
| "ends Dot s i = (if i < length s \<and> \<not> line_terminator (s ! i) then [Suc i] else [])"
| "ends Bol s i = (if i = 0 then [i] else [])"
| "ends Eol s i = (if i = length s then [i] else [])"
| "ends WordB s i = (if word_before s i \<noteq> word_after s i then [i] else [])"
| "ends (Seq a b) s i = remdups (concat (map (ends b s) (ends a s i)))"
| "ends (Alt a b) s i = remdups (ends a s i @ ends b s i)"
| "ends (Star a) s i = closure (ends a s) (Suc (length s)) [i] [i]"
| "ends (Plus a) s i =
     remdups (concat (map (\<lambda>j. closure (ends a s) (Suc (length s)) [j] [j]) (ends a s i)))"

text \<open>\<open>RegExp.prototype.test\<close>: a match starting anywhere.\<close>

definition test :: "regex \<Rightarrow> string \<Rightarrow> bool" where
  "test r s = list_ex (\<lambda>i. ends r s i \<noteq> []) [0 ..< Suc (length s)]"

fun seq :: "regex list \<Rightarrow> regex" where
  "seq [] = Eps"
| "seq [r] = r"
| "seq (r # rs) = Seq r (seq rs)"

definition lit :: "string \<Rightarrow> regex" where
  "lit s = seq (map Chr s)"

definition one_of :: "string \<Rightarrow> cset list" where
  "one_of s = map One s"

section \<open>The shell command generator (src/unnamed/part_001)\<close>

subsection \<open>validateCommand\<close>

definition syntaxErrors :: "regex list" where
  "syntaxErrors =
     [seq [Class (one_of ''&|;><''), Star (Class [Spaces]), Eol],
      seq [WordB, Plus (Class [WordChars]), Star (Class [Spaces]), Chr CHR ''='',
           Star (Class [Spaces]), Eol],
      seq [Bol, Class (Spaces # one_of ''|&;><!'')],
      seq [Chr CHR ''('', Star (Class [Spaces]), Chr CHR '')'']]"

definition blockedCommands :: "regex list" where
  "blockedCommands =
     [seq [WordB, lit ''sudo'', WordB, Star Dot, lit ''rm'', WordB, Star Dot, lit ''-rf'', WordB,
           Star Dot, Chr CHR ''/'', WordB],
      seq [WordB, lit ''mv'', WordB, Star Dot, Chr CHR ''/'', WordB, Star Dot, lit ''/dev/null'',
           WordB],
      seq [WordB, lit ''dd'', WordB, Star Dot, lit ''of=/dev/'',
           Alt (seq [Class (one_of ''hs''), Chr CHR ''d'', Class [Range CHR ''a'' CHR ''z'']])
               (seq [lit ''nvme'', Plus (Class [Digits]), Chr CHR ''n'', Plus (Class [Digits])])],
      seq [WordB, lit ''mkfs'', WordB, Star Dot, lit ''-f'', WordB],
      seq [WordB, lit ''shred'', WordB, Star Dot, Chr CHR ''-'', Class (one_of ''uz''), WordB]]"

definition validateCommand :: "string \<Rightarrow> bool" where
  "validateCommand command =
     (if list_ex (\<lambda>pattern. test pattern command) syntaxErrors then False
      else if list_ex (\<lambda>pattern. test pattern command) blockedCommands then False
      else True)"

subsection \<open>The edit prompt\<close>

text \<open>
  The \<open>validate\<close> callback of the edit prompt: \<open>None\<close> when the text is accepted, otherwise
  the complaint shown to the user.
\<close>

definition edit_validate :: "string \<Rightarrow> string option" where
  "edit_validate v =
     (if trim v = [] then Some ''Command cannot be empty''
      else if list_ex (\<lambda>c. c \<in> set (''&|;><$'' @ [CHR 0x60, CHR 0x5C])) v then
        Some ''Command contains potentially dangerous characters. Please use simple commands.''
      else if \<not> test (seq [Bol,
                 Plus (Class [Range CHR ''a'' CHR ''z'', Range CHR ''A'' CHR ''Z'',
                   Range CHR ''0'' CHR ''9'', One CHR ''_'', One CHR ''-'', One CHR ''.'']), Eol])
               (hd (split_space (trim v))) then
        Some ''Invalid command name''
      else None)"

subsection \<open>generateCommand\<close>

text \<open>
  What the user picks in the review menu; \<open>Edit\<close> carries the text typed into the edit
  prompt. The clipboard helper and the console output are left out.
\<close>

datatype action = Execute | Copy | Edit string | Cancel

text \<open>
  How a run ends: the command ran with exit code 0, was copied, the run was cancelled,
  the process exited with status 1 after printing a message, or the user's input ran
  out while a prompt was open.
\<close>

datatype command_end = Executed | Copied string | Cancelled | Exit1 string | AwaitingUser

record shell_session =
  option_provider :: "string option"
  option_dryRun :: bool
  config_defaultProvider :: "string option"
  config_defaultModel :: "string \<Rightarrow> string option"
  vault_lib :: runtime
  vault_disk :: disk
  sdk :: transport
  env_SHELL :: "string option"
  executor :: "launch \<Rightarrow> exit"
  user_actions :: "action list"

text \<open>A string that JavaScript treats as true: present and not empty.\<close>

fun truthy :: "string option \<Rightarrow> string option" where
  "truthy None = None"
| "truthy (Some s) = (if s = [] then None else Some s)"

definition join_lines :: "string list \<Rightarrow> string" where
  "join_lines ls = concat (butlast (concat (map (\<lambda>l. [l, [CHR 0x0A]]) ls)))"

definition shell_systemMessage :: Message where
  "shell_systemMessage =
     \<lparr>role = System,
      content = join_lines
        [''You are a shell command expert. Generate shell commands that follow these rules:'',
         ''1. Only output the exact shell command, no explanations'',
         ''2. Use modern shell syntax and best practices'',
         ''3. Make commands safe and handle errors gracefully'',
         ''4. Include necessary flags and options'',
         ''5. Consider performance implications'',
         ''6. Make commands as specific as possible'',
         ''7. Use --dry-run or similar safety flags when appropriate'',
         ''8. For directory operations, handle empty directories and non-existent paths'',
         ''9. For file operations, handle spaces and special characters'',
         ''10. Add error handling with 2>/dev/null where appropriate'']\<rparr>"

definition shell_userMessage :: "string \<Rightarrow> Message" where
  "shell_userMessage description =
     \<lparr>role = User,
      content = ''Generate a shell command to: '' @ description
        @ ''. Make sure it handles errors and empty results gracefully.''\<rparr>"

text \<open>
  The review loop of \<open>generateCommand\<close>. The first component of the result lists the
  processes handed to the Executor.
\<close>

fun handle_command ::
  "(launch \<Rightarrow> exit) \<Rightarrow> string \<Rightarrow> bool \<Rightarrow> string \<Rightarrow> action list \<Rightarrow> launch list \<times> command_end" where
  "handle_command exec sh True command acts = ([], Cancelled)"
| "handle_command exec sh False command [] = ([], AwaitingUser)"
| "handle_command exec sh False command (Execute # acts) =
     (case exec \<lparr>program = sh, args = [''-c'', command], in_shell = False\<rparr> of
        Exited code stderr \<Rightarrow>
          if code = Some 0
          then ([\<lparr>program = sh, args = [''-c'', command], in_shell = False\<rparr>], Executed)
          else ([\<lparr>program = sh, args = [''-c'', command], in_shell = False\<rparr>],
                Exit1 (''Command failed with exit code '' @ show_code code))
      | SpawnError m \<Rightarrow>
          ([\<lparr>program = sh, args = [''-c'', command], in_shell = False\<rparr>], Exit1 m))"
| "handle_command exec sh False command (Copy # acts) = ([], Copied command)"
| "handle_command exec sh False command (Edit v # acts) =
     (if edit_validate v = None then handle_command exec sh False v acts
      else ([], AwaitingUser))"
| "handle_command exec sh False command (Cancel # acts) = ([], Cancelled)"

definition generateCommand :: "shell_session \<Rightarrow> string \<Rightarrow> launch list \<times> command_end" where
  "generateCommand s description =
     (case (case truthy (option_provider s) of
              Some p \<Rightarrow> Some p
            | None \<Rightarrow> truthy (config_defaultProvider s)) of
        None \<Rightarrow> ([], Exit1 ''No provider specified and no default provider configured.'')
      | Some prov \<Rightarrow>
          (case getCredentials (vault_lib s) (vault_disk s) prov of
             Inl e \<Rightarrow> ([], Exit1 (message_of e))
           | Inr stored \<Rightarrow>
               (case truthy stored of
                  None \<Rightarrow> ([], Exit1 (''No API key found for '' @ prov @ ''.''))
                | Some key \<Rightarrow>
                    (case truthy (config_defaultModel s prov) of
                       None \<Rightarrow> ([], Exit1 (''No default model configured for '' @ prov @ ''.''))
                     | Some mdl \<Rightarrow>
                         (case streamChat (new_ProviderService prov key mdl) (sdk s)
                                 [shell_systemMessage, shell_userMessage description] of
                            (chunks, Some e) \<Rightarrow> ([], Exit1 (message_of e))
                          | (chunks, None) \<Rightarrow>
                              handle_command (executor s)
                                (case truthy (env_SHELL s) of Some sh \<Rightarrow> sh | None \<Rightarrow> ''/bin/sh'')
                                (option_dryRun s) (cleanup (concat chunks)) (user_actions s))))))"

text \<open>
  A run for the examples: the provider answers with a privileged recursive delete, the
  user picks \<open>Execute\<close>, and the process exits with code 0.
\<close>

definition careless_session :: shell_session where
  "careless_session =
     \<lparr>option_provider = Some ''openai'',
      option_dryRun = False,
      config_defaultProvider = None,
      config_defaultModel = (\<lambda>p. Some ''gpt-4''),
      vault_lib = toy_runtime,
      vault_disk =
        \<lparr>credentials_file = Parsed (JObj [(''credentials'', JObj [(''openai'',
             JObj [(''apiKey'', key_object (encrypt toy_runtime sixteen_bytes ''sk-abc''))])])]),
         write_error = None\<rparr>,
      sdk = mock_transport [TextDelta ''sudo rm '', TextDelta (''-rf /home'' @ [CHR 0x0A])],
      env_SHELL = None,
      executor = (\<lambda>l. Exited (Some 0) []),
      user_actions = [Execute]\<rparr>"

section \<open>The script generator (src/commands/gen-script.ts)\<close>

datatype script_type = Bash | Python | Node

definition SCRIPT_TEMPLATES :: "script_type \<Rightarrow> string" where
  "SCRIPT_TEMPLATES ty =
     (case ty of
        Bash \<Rightarrow> join_lines
          [''#!/bin/bash'',
           ''set -euo pipefail'',
           ''IFS=$'' @ [CHR 0x27, CHR 0x0A, CHR 0x09, CHR 0x27],
           '''',
           ''# Script content here'',
           '''']
      | Python \<Rightarrow> join_lines
          [''#!/usr/bin/env python3'',
           '''',
           ''import sys'',
           ''import os'',
           '''',
           ''def main():'',
           ''    # Script content here'',
           ''    pass'',
           '''',
           ''if __name__ == '' @ [CHR 0x22] @ ''__main__'' @ [CHR 0x22] @ '':'',
           ''    main()'',
           '''']
      | Node \<Rightarrow> join_lines
          [''#!/usr/bin/env node'',
           '''',
           ''async function main() {'',
           ''    // Script content here'',
           ''}'',
           '''',
           ''main().catch(console.error);'',
           ''''])"

subsection \<open>\<open>String.prototype.replace\<close> with a string pattern\<close>

text \<open>\<open>indexOf\<close>: the first position where the pattern occurs.\<close>

fun index_of :: "string \<Rightarrow> string \<Rightarrow> nat option" where
  "index_of pat [] = (if pat = [] then Some 0 else None)"
| "index_of pat (c # cs) =
     (if take (length pat) (c # cs) = pat then Some 0
      else map_option Suc (index_of pat cs))"

text \<open>
  The replacement text is a template: \<open>$$\<close> stands for a dollar sign, \<open>$&\<close> for the matched
  text, \<open>$`\<close> for the text before the match and \<open>$'\<close> for the text after it. A string
  pattern has no capture groups, so any other dollar sign stands for itself.
\<close>

fun expand :: "string \<Rightarrow> string \<Rightarrow> string \<Rightarrow> string \<Rightarrow> string" where
  "expand matched pre post [] = []"
| "expand matched pre post (c # r) =
     (if c = CHR ''$'' then
        (case r of
           [] \<Rightarrow> [c]
         | d # r' \<Rightarrow>
             if d = CHR ''$'' then CHR ''$'' # expand matched pre post r'
             else if d = CHR ''&'' then matched @ expand matched pre post r'
             else if d = CHR 0x60 then pre @ expand matched pre post r'
             else if d = CHR 0x27 then post @ expand matched pre post r'
             else c # expand matched pre post r)
      else c # expand matched pre post r)"

definition js_replace :: "string \<Rightarrow> string \<Rightarrow> string \<Rightarrow> string" where
  "js_replace s pat replacement =
     (case index_of pat s of
        None \<Rightarrow> s
      | Some p \<Rightarrow>
          take p s
          @ expand pat (take p s) (drop (p + length pat) s) replacement
          @ drop (p + length pat) s)"

subsection \<open>The script put up for review\<close>

text \<open>
  The statements of \<open>generateScript\<close> from the choice of the template to the start of the
  review loop: the streamed reply is trimmed and put into the template. A stream that
  breaks throws.
\<close>

definition generateScript_script :: "script_type option \<Rightarrow> fragments \<Rightarrow> thrown + string" where
  "generateScript_script option_type reply =
     (case reply of
        (chunks, Some e) \<Rightarrow> Inl e
      | (chunks, None) \<Rightarrow>
          Inr (js_replace
                 (SCRIPT_TEMPLATES (case option_type of None \<Rightarrow> Bash | Some ty \<Rightarrow> ty))
                 ''# Script content here''
                 (trim (concat chunks))))"

section \<open>Properties of the provider service\<close>

lemma anthropic_yield_envelope: "concat (anthropic_yield (anthropic_envelope e)) = event_text e"
  by (cases e) (simp_all add: anthropic_yield_def)

lemma openai_yield_envelope: "concat (openai_yield (openai_envelope e)) = event_text e"
  by (cases e) (simp_all add: openai_yield_def)

lemma concat_anthropic: "concat (concat (map (\<lambda>e. anthropic_yield (anthropic_envelope e)) evs)) = reply_text evs"
  by (induction evs) (simp_all add: reply_text_def anthropic_yield_envelope)

lemma concat_openai: "concat (concat (map (\<lambda>e. openai_yield (openai_envelope e)) evs)) = reply_text evs"
  by (induction evs) (simp_all add: reply_text_def openai_yield_envelope)

lemma gemini_loop_envelope:
  "gemini_loop (map gemini_envelope evs) None = (concat (map gemini_fragment evs), None)"
proof (induction evs)
  case Nil
  show ?case by simp
next
  case (Cons e evs)
  then show ?case by (cases e) (simp_all add: gemini_fragment_def)
qed

lemma concat_gemini: "concat (concat (map gemini_fragment evs)) = reply_text evs"
  by (induction evs) (simp_all add: reply_text_def gemini_fragment_def)

lemma streamChat_anthropic:
  "streamChat (new_ProviderService ''anthropic'' k m) (mock_transport evs) msgs =
     (concat (map (\<lambda>e. anthropic_yield (anthropic_envelope e)) evs), None)"
  by (simp add: streamChat_def new_ProviderService_def initializeClient_def caught_def
      mock_transport_def comp_def)

lemma streamChat_openai:
  "streamChat (new_ProviderService ''openai'' k m) (mock_transport evs) msgs =
     (concat (map (\<lambda>e. openai_yield (openai_envelope e)) evs), None)"
  by (simp add: streamChat_def new_ProviderService_def initializeClient_def caught_def
      mock_transport_def comp_def)

lemma streamChat_gemini:
  "streamChat (new_ProviderService ''gemini'' k m) (mock_transport evs) msgs =
     (concat (map gemini_fragment evs), None)"
  by (simp add: streamChat_def new_ProviderService_def initializeClient_def caught_def
      mock_transport_def gemini_loop_envelope)

text \<open>
  Claim C9. For each of the three provider identities and any conversation, when the
  transport delivers a reply as delta events in that provider's envelope (text deltas
  mixed with metadata events, tool deltas and empty deltas), \<open>streamChat\<close> ends without
  error and the fragments it yields, concatenated in order, are exactly the reply: the
  texts of the text deltas, in order.
\<close>

theorem streamChat_reconstructs_reply:
  assumes "p \<in> {''anthropic'', ''openai'', ''gemini''}"
  shows "snd (streamChat (new_ProviderService p k m) (mock_transport evs) msgs) = None \<and>
         concat (fst (streamChat (new_ProviderService p k m) (mock_transport evs) msgs)) = reply_text evs"
proof -
  consider "p = ''anthropic''" | "p = ''openai''" | "p = ''gemini''"
    using assms by blast
  then show ?thesis
  proof cases
    case 1
    then show ?thesis by (simp only: streamChat_anthropic fst_conv snd_conv concat_anthropic)
  next
    case 2
    then show ?thesis by (simp only: streamChat_openai fst_conv snd_conv concat_openai)
  next
    case 3
    then show ?thesis by (simp only: streamChat_gemini fst_conv snd_conv concat_gemini)
  qed
qed

theorem streamChat_reconstructs_reply_witness:
  "fst (streamChat (new_ProviderService ''openai'' ''sk'' ''gpt-4'')
         (mock_transport [Metadata, TextDelta ''ls '', ToolDelta ''{}'', TextDelta [], TextDelta ''-la''])
         [\<lparr>role = User, content = ''list files''\<rparr>]) = [''ls '', ''-la''] \<and>
   reply_text [Metadata, TextDelta ''ls '', ToolDelta ''{}'', TextDelta [], TextDelta ''-la''] = ''ls -la''"
  using streamChat_reconstructs_reply [of "''openai''" "''sk''" "''gpt-4''"
      "[Metadata, TextDelta ''ls '', ToolDelta ''{}'', TextDelta [], TextDelta ''-la'']"
      "[\<lparr>role = User, content = ''list files''\<rparr>]"]
  by (simp add: streamChat_def new_ProviderService_def initializeClient_def caught_def
      mock_transport_def openai_yield_def reply_text_def)

text \<open>
  Claim C8. The Gemini adapter keeps every message of the conversation: the contents it
  sends have the length and order of the conversation, each carries the original text
  as its single part, each has role \<open>user\<close> or \<open>model\<close>, and a system message is sent
  with role \<open>model\<close>. These contents are what \<open>streamChat\<close> hands to the SDK.
\<close>

theorem gemini_folds_system_message:
  "length (gemini_contents msgs) = length msgs \<and>
   map g_parts (gemini_contents msgs) = map (\<lambda>msg. [content msg]) msgs \<and>
   (\<forall>c \<in> set (gemini_contents msgs). g_role c = ''user'' \<or> g_role c = ''model'') \<and>
   (\<forall>i < length msgs. role (msgs ! i) = System \<longrightarrow>
      gemini_contents msgs ! i = \<lparr>g_role = ''model'', g_parts = [content (msgs ! i)]\<rparr>) \<and>
   streamChat (new_ProviderService ''gemini'' k m) T msgs =
     caught (case gemini_generateContentStream T k
                    \<lparr>g_model = m, g_contents = gemini_contents msgs\<rparr> of
               Inl e \<Rightarrow> ([], Some e)
             | Inr (chunks, brk) \<Rightarrow> gemini_loop chunks brk)"
  by (auto simp: gemini_contents_def streamChat_def new_ProviderService_def initializeClient_def)

theorem gemini_folds_system_message_witness:
  "gemini_contents [\<lparr>role = System, content = ''be brief''\<rparr>, \<lparr>role = User, content = ''hi''\<rparr>] =
     [\<lparr>g_role = ''model'', g_parts = [''be brief'']\<rparr>, \<lparr>g_role = ''user'', g_parts = [''hi'']\<rparr>] \<and>
   map g_role (gemini_contents
        [\<lparr>role = System, content = ''be brief''\<rparr>, \<lparr>role = User, content = ''hi''\<rparr>]) =
     [''model'', ''user'']"
  using gemini_folds_system_message
    [of "[\<lparr>role = System, content = ''be brief''\<rparr>, \<lparr>role = User, content = ''hi''\<rparr>]"]
  by (simp add: gemini_contents_def)

text \<open>
  Claim C10. A service built with a provider string outside the three identities has no
  client at all, and its \<open>streamChat\<close> completes with no fragment and no error, whatever
  the transport and the conversation.
\<close>

theorem unknown_provider_empty_stream:
  assumes "p \<notin> {''anthropic'', ''openai'', ''gemini''}"
  shows "anthropicClient (new_ProviderService p k m) = None \<and>
         openaiClient (new_ProviderService p k m) = None \<and>
         geminiClient (new_ProviderService p k m) = None \<and>
         streamChat (new_ProviderService p k m) T msgs = ([], None)"
  using assms
  by (simp add: streamChat_def new_ProviderService_def initializeClient_def caught_def)

theorem unknown_provider_empty_stream_witness:
  "''claude'' \<notin> {''anthropic'', ''openai'', ''gemini''} \<and>
   streamChat (new_ProviderService ''claude'' ''key'' ''m'') (mock_transport [TextDelta ''ls''])
     [\<lparr>role = User, content = ''list files''\<rparr>] = ([], None)"
  using unknown_provider_empty_stream [of "''claude''" "''key''" "''m''"
      "mock_transport [TextDelta ''ls'']" "[\<lparr>role = User, content = ''list files''\<rparr>]"]
  by simp

section \<open>Properties of the command executor\<close>

lemma launches_append: "launches (xs @ ys) = launches xs @ launches ys"
  by (induction xs rule: launches.induct) simp_all

lemma requests_append: "requests (xs @ ys) = requests xs @ requests ys"
  by (induction xs rule: requests.induct) simp_all

lemma executeCommand_last:
  assumes "maxAttempts - 1 \<le> a"
  shows "executeCommand w s c a opts =
     (case failure (spawn w a (launch_of opts c)) of
        None \<Rightarrow> ([Launched (launch_of opts c)], Returned)
      | Some e \<Rightarrow> ([Launched (launch_of opts c), GaveUp], Threw (Error e)))"
  using assms by (subst executeCommand.simps) (simp split: option.splits)

lemma executeCommand_retry:
  assumes "a < maxAttempts - 1"
    and "failure (spawn w a (launch_of opts c)) = Some e"
    and "streamChat s (net w a) [retry_message opts c e] = (fs, None)"
    and "cleanup (concat fs) \<noteq> c"
    and "confirm w a (cleanup (concat fs))"
  shows "executeCommand w s c a opts =
     ([Launched (launch_of opts c), Asked [retry_message opts c e], Offered (cleanup (concat fs))]
        @ fst (executeCommand w s (cleanup (concat fs)) (a + 1) opts),
      snd (executeCommand w s (cleanup (concat fs)) (a + 1) opts))"
  using assms by (subst executeCommand.simps) (simp split: prod.splits)

lemma launches_nonempty: "launches (fst (executeCommand w s c a opts)) \<noteq> []"
  by (subst executeCommand.simps) (simp split: option.splits prod.splits)

lemma executeCommand_cases:
  assumes "a < maxAttempts - 1" and "executeCommand w s c a opts = (evs, r)"
  shows "launches evs = [launch_of opts c] \<or>
         (\<exists>c' evs'. executeCommand w s c' (Suc a) opts = (evs', r) \<and>
            launches evs = launch_of opts c # launches evs')"
proof (cases "failure (spawn w a (launch_of opts c))")
  case None
  with assms(2) show ?thesis
    by (subst (asm) executeCommand.simps) auto
next
  case (Some e)
  obtain fs brk where chat: "streamChat s (net w a) [retry_message opts c e] = (fs, brk)"
    by (cases "streamChat s (net w a) [retry_message opts c e]")
  obtain evs' r' where rec: "executeCommand w s (cleanup (concat fs)) (Suc a) opts = (evs', r')"
    by (cases "executeCommand w s (cleanup (concat fs)) (Suc a) opts")
  from assms Some chat rec
  have "launches evs = [launch_of opts c] \<or>
        (launches evs = launch_of opts c # launches evs' \<and> r = r')"
    by (subst (asm) executeCommand.simps) (auto split: option.splits if_splits)
  then show ?thesis
  proof
    assume "launches evs = [launch_of opts c]"
    then show ?thesis by simp
  next
    assume "launches evs = launch_of opts c # launches evs' \<and> r = r'"
    with rec have "executeCommand w s (cleanup (concat fs)) (Suc a) opts = (evs', r) \<and>
        launches evs = launch_of opts c # launches evs'"
      by simp
    then show ?thesis by blast
  qed
qed

text \<open>
  Claim C2. In a session started with the attempt counter at 0 where every launch fails,
  the provider answers every correction request, each answer differs (after clean-up)
  from the command that just failed, and the user accepts every suggested fix, the
  controller launches exactly \<open>maxAttempts = 3\<close> commands (the original and the two
  fixes), sends exactly two correction requests, reports that it gives up and ends by
  throwing an error.
\<close>

theorem retry_bound:
  assumes fails: "\<And>n l. failure (spawn w n l) \<noteq> None"
    and replies: "\<And>n msgs. streamChat service (net w n) msgs = (answer n, None)"
    and differs0: "cleanup (concat (answer 0)) \<noteq> command"
    and differs1: "cleanup (concat (answer 1)) \<noteq> cleanup (concat (answer 0))"
    and accepts: "\<And>n c. confirm w n c"
  shows "launches (fst (executeCommand w service command 0 options)) =
           [launch_of options command,
            launch_of options (cleanup (concat (answer 0))),
            launch_of options (cleanup (concat (answer 1)))] \<and>
         length (launches (fst (executeCommand w service command 0 options))) = maxAttempts \<and>
         length (requests (fst (executeCommand w service command 0 options))) = maxAttempts - 1 \<and>
         last (fst (executeCommand w service command 0 options)) = GaveUp \<and>
         (\<exists>m. snd (executeCommand w service command 0 options) = Threw (Error m))"
proof -
  let ?c1 = "cleanup (concat (answer 0))" and ?c2 = "cleanup (concat (answer 1))"
  obtain e0 where e0: "failure (spawn w 0 (launch_of options command)) = Some e0"
    using fails by blast
  obtain e1 where e1: "failure (spawn w 1 (launch_of options ?c1)) = Some e1"
    using fails by blast
  obtain e2 where e2: "failure (spawn w 2 (launch_of options ?c2)) = Some e2"
    using fails by blast
  have last_attempt: "maxAttempts - 1 \<le> (2::nat)" and may_retry0: "(0::nat) < maxAttempts - 1"
    and may_retry1: "(1::nat) < maxAttempts - 1"
    by (simp_all add: maxAttempts_def)
  have third: "executeCommand w service ?c2 2 options =
      ([Launched (launch_of options ?c2), GaveUp], Threw (Error e2))"
    using executeCommand_last [OF last_attempt, of w service ?c2 options]
    by (simp only: e2 option.case)
  have "executeCommand w service ?c1 1 options =
      ([Launched (launch_of options ?c1), Asked [retry_message options ?c1 e1], Offered ?c2]
         @ fst (executeCommand w service ?c2 (1 + 1) options),
       snd (executeCommand w service ?c2 (1 + 1) options))"
    by (rule executeCommand_retry [OF may_retry1 e1 replies differs1 accepts])
  then have second: "executeCommand w service ?c1 1 options =
      ([Launched (launch_of options ?c1), Asked [retry_message options ?c1 e1], Offered ?c2,
        Launched (launch_of options ?c2), GaveUp], Threw (Error e2))"
    by (simp only: one_add_one third fst_conv snd_conv append.simps)
  have "executeCommand w service command 0 options =
      ([Launched (launch_of options command), Asked [retry_message options command e0], Offered ?c1]
         @ fst (executeCommand w service ?c1 (0 + 1) options),
       snd (executeCommand w service ?c1 (0 + 1) options))"
    by (rule executeCommand_retry [OF may_retry0 e0 replies differs0 accepts])
  then have first: "executeCommand w service command 0 options =
      ([Launched (launch_of options command), Asked [retry_message options command e0], Offered ?c1,
        Launched (launch_of options ?c1), Asked [retry_message options ?c1 e1], Offered ?c2,
        Launched (launch_of options ?c2), GaveUp], Threw (Error e2))"
    by (simp only: add_0 second fst_conv snd_conv append.simps)
  show ?thesis
    by (simp add: first maxAttempts_def)
qed

theorem retry_bound_witness:
  "launches (fst (executeCommand failing_world (new_ProviderService ''openai'' ''key'' ''gpt-4'')
       ''ls'' 0 default_options)) =
     [launch_of default_options ''ls'', launch_of default_options ''fix0'',
      launch_of default_options ''fix1''] \<and>
   last (fst (executeCommand failing_world (new_ProviderService ''openai'' ''key'' ''gpt-4'')
       ''ls'' 0 default_options)) = GaveUp"
proof -
  let ?svc = "new_ProviderService ''openai'' ''key'' ''gpt-4''"
  define answer where "answer n = fst (streamChat ?svc (net failing_world n) [])" for n
  have fails: "\<And>n l. failure (spawn failing_world n l) \<noteq> None"
    by (simp add: failing_world_def)
  have replies: "\<And>n msgs. streamChat ?svc (net failing_world n) msgs = (answer n, None)"
    by (simp add: answer_def failing_world_def streamChat_openai)
  have c1: "cleanup (concat (answer 0)) = ''fix0''" and c2: "cleanup (concat (answer 1)) = ''fix1''"
    unfolding answer_def by code_simp+
  have differs0: "cleanup (concat (answer 0)) \<noteq> ''ls''"
    and differs1: "cleanup (concat (answer 1)) \<noteq> cleanup (concat (answer 0))"
    by (simp_all only: c1 c2) simp_all
  have accepts: "\<And>n c. confirm failing_world n c"
    by (simp add: failing_world_def)
  from retry_bound [of failing_world ?svc answer "''ls''" default_options,
      OF fails replies differs0 differs1 accepts]
  show ?thesis by (simp only: c1 c2 simp_thms)
qed

text \<open>
  Claim C3. When an execution fails at an attempt that may still retry and the
  provider's answer to the correction request, after clean-up, equals the failed
  command, the session ends there: its events are the launch and the one correction
  request, with no confirmation offered and no further launch, and it throws
  \<open>AI couldn't find a better solution\<close>.
\<close>

theorem no_improvement_fails_at_once:
  assumes "attempts < maxAttempts - 1"
    and "failure (spawn w attempts (launch_of options command)) = Some e"
    and "streamChat service (net w attempts) [retry_message options command e] = (fs, None)"
    and "cleanup (concat fs) = command"
  shows "executeCommand w service command attempts options =
     ([Launched (launch_of options command), Asked [retry_message options command e]],
      Threw (Error ''AI couldn't find a better solution''))"
  using assms by (subst executeCommand.simps) simp

theorem no_improvement_fails_at_once_witness:
  "executeCommand echo_world (new_ProviderService ''gemini'' ''key'' ''gemini-pro'')
     ''ls -la'' 0 default_options =
     ([Launched (launch_of default_options ''ls -la''),
       Asked [retry_message default_options ''ls -la'' ''ls: cannot access'']],
      Threw (Error ''AI couldn't find a better solution''))"
proof -
  let ?svc = "new_ProviderService ''gemini'' ''key'' ''gemini-pro''"
  have may_retry: "(0::nat) < maxAttempts - 1"
    by (simp add: maxAttempts_def)
  have failed: "failure (spawn echo_world 0 (launch_of default_options ''ls -la'')) =
      Some ''ls: cannot access''"
    by code_simp
  have answer: "streamChat ?svc (net echo_world 0)
      [retry_message default_options ''ls -la'' ''ls: cannot access''] =
      ([''ls  '', [CHR ''-'', CHR ''l'', CHR ''a'', CHR 0x0A]], None)"
    by (simp add: echo_world_def streamChat_gemini gemini_fragment_def)
  have same: "cleanup (concat [''ls  '', [CHR ''-'', CHR ''l'', CHR ''a'', CHR 0x0A]]) = ''ls -la''"
    by code_simp
  from no_improvement_fails_at_once [OF may_retry failed answer same]
  show ?thesis .
qed

lemma exhausted_at_last:
  assumes "maxAttempts - 1 \<le> a" and "executeCommand w s c a opts = (evs, r)" and "r \<noteq> Returned"
  shows "launches evs = [launch_of opts c] \<and>
         (\<exists>m. failure (spawn w a (launch_of opts c)) = Some m \<and> r = Threw (Error m))"
  using assms by (auto simp: executeCommand_last split: option.splits)

text \<open>
  Claim C4, as the code has it. In a session started with the attempt counter at 0 in
  which \<open>maxAttempts\<close> launches were made and the session did not succeed, the error
  thrown at the end is the error of the last launch, the one made at attempt index
  \<open>maxAttempts - 1\<close>, unchanged.
\<close>

theorem exhausted_reports_last_error:
  assumes run: "executeCommand w service command 0 options = (evs, r)"
    and three: "length (launches evs) = maxAttempts"
    and failed: "r \<noteq> Returned"
  shows "\<exists>m. failure (spawn w (maxAttempts - 1) (last (launches evs))) = Some m \<and>
             r = Threw (Error m)"
proof -
  have may_retry0: "0 < maxAttempts - 1" and may_retry1: "Suc 0 < maxAttempts - 1"
    and last_attempt: "maxAttempts - 1 \<le> Suc (Suc 0)" and index: "maxAttempts - 1 = Suc (Suc 0)"
    by (simp_all add: maxAttempts_def)
  from executeCommand_cases [OF may_retry0 run] three
  obtain c1 evs1 where run1: "executeCommand w service c1 (Suc 0) options = (evs1, r)"
    and l0: "launches evs = launch_of options command # launches evs1"
    by (auto simp: maxAttempts_def)
  from executeCommand_cases [OF may_retry1 run1] three l0
  obtain c2 evs2 where run2: "executeCommand w service c2 (Suc (Suc 0)) options = (evs2, r)"
    and l1: "launches evs1 = launch_of options c1 # launches evs2"
    by (auto simp: maxAttempts_def)
  from exhausted_at_last [OF last_attempt run2 failed]
  obtain m where "launches evs2 = [launch_of options c2]"
    and "failure (spawn w (Suc (Suc 0)) (launch_of options c2)) = Some m" and "r = Threw (Error m)"
    by blast
  then show ?thesis
    by (simp add: l0 l1 index del: One_nat_def)
qed

theorem exhausted_reports_last_error_witness:
  "\<exists>m. failure (spawn failing_world (maxAttempts - 1)
          (last (launches (fst (executeCommand failing_world
             (new_ProviderService ''openai'' ''key'' ''gpt-4'') ''ls'' 0 default_options))))) = Some m \<and>
       snd (executeCommand failing_world (new_ProviderService ''openai'' ''key'' ''gpt-4'')
          ''ls'' 0 default_options) = Threw (Error m)"
proof -
  let ?run = "executeCommand failing_world (new_ProviderService ''openai'' ''key'' ''gpt-4'')
      ''ls'' 0 default_options"
  have run: "?run = (fst ?run, snd ?run)"
    by simp
  have three: "length (launches (fst ?run)) = maxAttempts"
    by code_simp
  have failed: "snd ?run \<noteq> Returned"
    by code_simp
  from exhausted_reports_last_error [OF run three failed]
  show ?thesis .
qed

text \<open>
  The claim as stated fails: in the session below the three launches fail with three
  different messages, and the error thrown is the third one, not the first.
\<close>

theorem first_error_not_reported:
  "launches (fst (executeCommand failing_world (new_ProviderService ''openai'' ''key'' ''gpt-4'')
       ''ls'' 0 default_options)) =
     [\<lparr>program = ''ls'', args = [], in_shell = True\<rparr>,
      \<lparr>program = ''fix0'', args = [], in_shell = True\<rparr>,
      \<lparr>program = ''fix1'', args = [], in_shell = True\<rparr>] \<and>
   failure (spawn failing_world 0 \<lparr>program = ''ls'', args = [], in_shell = True\<rparr>) =
     Some ''error 0'' \<and>
   snd (executeCommand failing_world (new_ProviderService ''openai'' ''key'' ''gpt-4'')
       ''ls'' 0 default_options) = Threw (Error ''error 2'') \<and>
   snd (executeCommand failing_world (new_ProviderService ''openai'' ''key'' ''gpt-4'')
       ''ls'' 0 default_options) \<noteq> Threw (Error ''error 0'')"
  by code_simp

section \<open>Properties of the credential vault\<close>






lemma map_of_put: "map_of (put k x ps) k' = (if k' = k then Some x else map_of ps k')"
  by (induction ps) auto

lemma map_of_persist:
  "map_of (map (map_prod id persist) kvs) k = map_option persist (map_of kvs k)"
  by (induction kvs) auto

lemma persist_key_object: "persist (key_object k) = key_object k"
  by (simp add: key_object_def)

lemma not_index_credentials: "index_key ''credentials'' = None"
  by (simp add: index_key_def is_digit_def)

lemma not_index_provider: "index_key (provider_name p) = None"
  by (cases p) (simp_all add: index_key_def is_digit_def)

lemma credentials_present:
  "\<exists>creds. own (readCredentialsData d) ''credentials'' = Some creds \<and> js_truthy creds"
proof (cases "credentials_file d")
  case (Parsed parsed)
  show ?thesis
  proof (cases "truthy_opt (own parsed ''credentials'')")
    case True
    with Parsed show ?thesis
      by (cases "own parsed ''credentials''")
        (auto simp: readCredentialsData_def fresh_credentials_def)
  next
    case False
    with Parsed show ?thesis
      by (cases parsed)
        (simp_all add: readCredentialsData_def fresh_credentials_def map_of_put
          not_index_credentials)
  qed
qed (simp_all add: readCredentialsData_def fresh_credentials_def)












lemma array_member_loses_key:
  "saveCredentials toy_runtime sixteen_bytes
     \<lparr>credentials_file = Parsed (JObj [(''credentials'', JArr [] [])]), write_error = None\<rparr>
     OpenAI ''sk-abc'' =
     Inr \<lparr>credentials_file = Parsed (JObj [(''credentials'', JArr [] [])]), write_error = None\<rparr> \<and>
   getCredentials toy_runtime
     \<lparr>credentials_file = Parsed (JObj [(''credentials'', JArr [] [])]), write_error = None\<rparr>
     ''openai'' = Inr None"
  by code_simp

lemma not_index_apiKey: "index_key ''apiKey'' = None"
  by (simp add: index_key_def is_digit_def)

lemma provider_not_length: "provider_name p \<noteq> ''length''"
  by (cases p) simp_all

lemma array_cases:
  assumes "\<not> no_array_above f name"
  shows "(\<exists>xs ps. f = Parsed (JArr xs ps)) \<or>
         (\<exists>kvs xs ps. f = Parsed (JObj kvs) \<and> map_of kvs ''credentials'' = Some (JArr xs ps)) \<or>
         (\<exists>kvs cs xs ps. f = Parsed (JObj kvs) \<and> map_of kvs ''credentials'' = Some (JObj cs) \<and>
            map_of cs name = Some (JArr xs ps))"
  using assms
  by (auto simp: no_array_above_def split: credentials_file.splits js.splits option.splits)

text \<open>
  The condition of the round trip cannot be dropped: with an array in one of the three
  places, a save that completes leaves no key behind for the provider.
\<close>

lemma array_above_loses_key:
  assumes place: "\<not> no_array_above (credentials_file d) (provider_name p)"
    and saved: "saveCredentials lib v d p key = Inr d'"
  shows "getCredentials lib d' (provider_name p) = Inr None"
proof -
  let ?name = "provider_name p"
  have writable: "write_error d = None"
    using saved by (simp add: saveCredentials_def split: option.splits)
  from array_cases [OF place] consider
    (root) xs ps where "credentials_file d = Parsed (JArr xs ps)"
  | (member) kvs xs ps where "credentials_file d = Parsed (JObj kvs)"
      "map_of kvs ''credentials'' = Some (JArr xs ps)"
  | (entry) kvs cs xs ps where "credentials_file d = Parsed (JObj kvs)"
      "map_of kvs ''credentials'' = Some (JObj cs)" "map_of cs ?name = Some (JArr xs ps)"
    by blast
  then show ?thesis
  proof cases
    case root
    then have "\<exists>ps'. readCredentialsData d = JArr xs ps'"
      by (cases "truthy_opt (map_of ps ''credentials'')")
        (simp_all add: readCredentialsData_def not_index_credentials)
    then obtain ps' where "readCredentialsData d = JArr xs ps'" ..
    with saved writable obtain ps'' where "credentials_file d' = Parsed (persist (JArr xs ps''))"
      by (auto simp: saveCredentials_def Let_def split: option.splits if_splits)
    then show ?thesis
      by (simp add: getCredentials_def readCredentialsData_def not_index_credentials)
  next
    case member
    then have data: "readCredentialsData d = JObj kvs"
      by (simp add: readCredentialsData_def)
    with saved writable member obtain ps' where
      "credentials_file d' = Parsed (persist (JObj (put ''credentials'' (JArr xs ps') kvs)))"
      by (auto simp: saveCredentials_def Let_def not_index_provider provider_not_length
          split: option.splits if_splits)
    then show ?thesis
      by (simp add: getCredentials_def readCredentialsData_def map_of_persist map_of_put
          not_index_provider provider_not_length)
  next
    case entry
    then have data: "readCredentialsData d = JObj kvs"
      by (simp add: readCredentialsData_def)
    with saved writable entry obtain ps' where
      "credentials_file d' = Parsed (persist (JObj (put ''credentials''
          (JObj (put ?name (JArr xs ps') cs)) kvs)))"
      by (auto simp: saveCredentials_def Let_def)
    then show ?thesis
      by (simp add: getCredentials_def readCredentialsData_def map_of_persist map_of_put
          not_index_apiKey)
  qed
qed

lemma stored_key_cases:
  "getCredentials lib d p =
     (case stored_apiKey d p of
        None \<Rightarrow> Inr None
      | Some k \<Rightarrow>
          (case decrypt lib (own k ''encrypted'') (own k ''iv'') of
             Inl e \<Rightarrow> Inl e
           | Inr plain \<Rightarrow> Inr (Some plain)))"
proof -
  obtain creds where "own (readCredentialsData d) ''credentials'' = Some creds" "js_truthy creds"
    using credentials_present by blast
  moreover from this have "creds \<noteq> JNull"
    by auto
  ultimately show ?thesis
    by (simp add: getCredentials_def stored_apiKey_def split: option.splits)
qed

lemma unreadable_file_stores_nothing:
  "credentials_file d = Missing \<or> credentials_file d = Unparsable \<Longrightarrow> stored_apiKey d p = None"
  by (auto simp: stored_apiKey_def readCredentialsData_def fresh_credentials_def)

text \<open>
  Claim C7. \<open>getCredentials\<close> returns absent, without error, when the credentials file is
  missing or unparsable and whenever the file, whatever it parses to, holds no key for
  the provider. When a key is stored and its decryption throws, \<open>getCredentials\<close> throws
  that same error instead of returning absent; so it does when the stored vector is one
  \<open>createDecipheriv\<close> rejects, when the stored cipher text has an odd number of
  hexadecimal characters, and when the cipher rejects the decoded cipher text.
\<close>

theorem getCredentials_absent_or_error:
  "(credentials_file d = Missing \<or> credentials_file d = Unparsable \<longrightarrow>
      getCredentials lib d p = Inr None) \<and>
   (stored_apiKey d p = None \<longrightarrow> getCredentials lib d p = Inr None) \<and>
   (\<forall>k e. stored_apiKey d p = Some k \<and>
        decrypt lib (own k ''encrypted'') (own k ''iv'') = Inl e \<longrightarrow>
      getCredentials lib d p = Inl e) \<and>
   (\<forall>k v e. stored_apiKey d p = Some k \<and> own k ''iv'' = Some (JStr v) \<and>
        iv_rejected lib (from_hex v) = Some e \<longrightarrow>
      getCredentials lib d p = Inl e) \<and>
   (\<forall>k v c. stored_apiKey d p = Some k \<and> own k ''iv'' = Some (JStr v) \<and>
        iv_rejected lib (from_hex v) = None \<and> own k ''encrypted'' = Some (JStr c) \<and>
        odd (length c) \<longrightarrow>
      getCredentials lib d p = Inl (hex_length_error lib)) \<and>
   (\<forall>k v c e. stored_apiKey d p = Some k \<and> own k ''iv'' = Some (JStr v) \<and>
        iv_rejected lib (from_hex v) = None \<and> own k ''encrypted'' = Some (JStr c) \<and>
        even (length c) \<and> cipher_decrypt lib (from_hex v) (from_hex c) = Inl e \<longrightarrow>
      getCredentials lib d p = Inl e)"
proof (intro conjI allI impI)
  assume "credentials_file d = Missing \<or> credentials_file d = Unparsable"
  then show "getCredentials lib d p = Inr None"
    by (simp add: stored_key_cases unreadable_file_stores_nothing)
next
  assume "stored_apiKey d p = None"
  then show "getCredentials lib d p = Inr None"
    by (simp add: stored_key_cases)
next
  fix k e
  assume "stored_apiKey d p = Some k \<and> decrypt lib (own k ''encrypted'') (own k ''iv'') = Inl e"
  then show "getCredentials lib d p = Inl e"
    by (simp add: stored_key_cases)
next
  fix k v e
  assume "stored_apiKey d p = Some k \<and> own k ''iv'' = Some (JStr v) \<and>
      iv_rejected lib (from_hex v) = Some e"
  then show "getCredentials lib d p = Inl e"
    by (simp add: stored_key_cases decrypt_def)
next
  fix k v c
  assume "stored_apiKey d p = Some k \<and> own k ''iv'' = Some (JStr v) \<and>
      iv_rejected lib (from_hex v) = None \<and> own k ''encrypted'' = Some (JStr c) \<and> odd (length c)"
  then show "getCredentials lib d p = Inl (hex_length_error lib)"
    by (simp add: stored_key_cases decrypt_def)
next
  fix k v c e
  assume "stored_apiKey d p = Some k \<and> own k ''iv'' = Some (JStr v) \<and>
      iv_rejected lib (from_hex v) = None \<and> own k ''encrypted'' = Some (JStr c) \<and>
      even (length c) \<and> cipher_decrypt lib (from_hex v) (from_hex c) = Inl e"
  then show "getCredentials lib d p = Inl e"
    by (simp add: stored_key_cases decrypt_def)
qed

theorem getCredentials_absent_or_error_witness:
  "getCredentials toy_runtime \<lparr>credentials_file = Missing, write_error = None\<rparr> ''gemini'' =
     Inr None \<and>
   getCredentials toy_runtime
     \<lparr>credentials_file = Parsed (JObj [(''credentials'', JObj [(''gemini'',
          JObj [(''apiKey'', JObj [(''iv'', JStr ''000102030405060708090a0b0c0d0e0f''),
                                  (''encrypted'', JStr ''000102030405060708090a0b0c0d0e0f7'')])])])]),
      write_error = None\<rparr> ''gemini'' =
     Inl (hex_length_error toy_runtime) \<and>
   getCredentials toy_runtime
     \<lparr>credentials_file = Parsed (JObj [(''credentials'', JObj [(''gemini'',
          JObj [(''apiKey'', JObj [(''iv'', JStr ''zz''), (''encrypted'', JStr ''00'')])])])]),
      write_error = None\<rparr> ''gemini'' =
     Inl (Error ''Invalid initialization vector'')"
proof -
  let ?odd = "JObj [(''iv'', JStr ''000102030405060708090a0b0c0d0e0f''),
      (''encrypted'', JStr ''000102030405060708090a0b0c0d0e0f7'')]"
  let ?d_odd = "\<lparr>credentials_file = Parsed (JObj [(''credentials'', JObj [(''gemini'',
      JObj [(''apiKey'', ?odd)])])]), write_error = None\<rparr>"
  let ?short = "JObj [(''iv'', JStr ''zz''), (''encrypted'', JStr ''00'')]"
  let ?d_short = "\<lparr>credentials_file = Parsed (JObj [(''credentials'', JObj [(''gemini'',
      JObj [(''apiKey'', ?short)])])]), write_error = None\<rparr>"
  from getCredentials_absent_or_error
    [where d = "\<lparr>credentials_file = Missing, write_error = None\<rparr>" and lib = toy_runtime
      and p = "''gemini''"]
  have absent: "getCredentials toy_runtime \<lparr>credentials_file = Missing, write_error = None\<rparr>
      ''gemini'' = Inr None"
    by simp
  have stored_odd: "stored_apiKey ?d_odd ''gemini'' = Some ?odd"
    by code_simp
  have accepted: "iv_rejected toy_runtime (from_hex ''000102030405060708090a0b0c0d0e0f'') = None"
    by code_simp
  from getCredentials_absent_or_error
    [where d = ?d_odd and lib = toy_runtime and p = "''gemini''"] stored_odd accepted
  have odd_text: "getCredentials toy_runtime ?d_odd ''gemini'' = Inl (hex_length_error toy_runtime)"
    by simp
  have stored_short: "stored_apiKey ?d_short ''gemini'' = Some ?short"
    by code_simp
  have rejected: "iv_rejected toy_runtime (from_hex ''zz'') =
      Some (Error ''Invalid initialization vector'')"
    by code_simp
  from getCredentials_absent_or_error
    [where d = ?d_short and lib = toy_runtime and p = "''gemini''"] stored_short rejected
  have "getCredentials toy_runtime ?d_short ''gemini'' = Inl (Error ''Invalid initialization vector'')"
    by simp
  with absent odd_text show ?thesis by simp
qed

section \<open>Properties of the command and script generators\<close>

lemma validateCommand_rejects_blocked:
  "list_ex (\<lambda>pattern. test pattern command) blockedCommands \<Longrightarrow> \<not> validateCommand command"
  by (simp add: validateCommand_def)

lemma execute_hands_over:
  "fst (handle_command exec sh False command (Execute # acts)) =
     [\<lparr>program = sh, args = [''-c'', command], in_shell = False\<rparr>]"
  by (simp split: exit.splits)

text \<open>
  Claim C1, at the failing input. \<open>validateCommand\<close> accepts \<open>git status\<close> and rejects
  \<open>sudo rm -rf /home\<close>, which matches the first blocked pattern. Yet when the provider
  answers with that command and the user picks \<open>Execute\<close>, \<open>generateCommand\<close> hands it to
  the Executor: the review loop never calls \<open>validateCommand\<close>.
\<close>

theorem blocked_command_reaches_executor:
  "validateCommand ''git status'' \<and>
   test (blockedCommands ! 0) ''sudo rm -rf /home'' \<and>
   \<not> validateCommand ''sudo rm -rf /home'' \<and>
   generateCommand careless_session ''clean up my home'' =
     ([\<lparr>program = ''/bin/sh'', args = [''-c'', ''sudo rm -rf /home''], in_shell = False\<rparr>],
      Executed)"
  by code_simp

lemma expand_plain: "CHR ''$'' \<notin> set r \<Longrightarrow> expand matched pre post r = r"
  by (induction r) auto

lemma bash_placeholder: "index_of ''# Script content here'' (SCRIPT_TEMPLATES Bash) = Some 41"
  by code_simp

lemma python_placeholder: "index_of ''# Script content here'' (SCRIPT_TEMPLATES Python) = Some 62"
  by code_simp

lemma node_placeholder: "index_of ''# Script content here'' (SCRIPT_TEMPLATES Node) = None"
  by code_simp

lemma bash_script_verbatim:
  assumes "CHR ''$'' \<notin> set (trim (concat chunks))"
  shows "generateScript_script (Some Bash) (chunks, None) =
     Inr (take 41 (SCRIPT_TEMPLATES Bash) @ trim (concat chunks)
          @ drop (41 + length ''# Script content here'') (SCRIPT_TEMPLATES Bash))"
  by (simp only: generateScript_script_def js_replace_def bash_placeholder
      expand_plain [OF assms] option.case prod.case)

lemma python_script_verbatim:
  assumes "CHR ''$'' \<notin> set (trim (concat chunks))"
  shows "generateScript_script (Some Python) (chunks, None) =
     Inr (take 62 (SCRIPT_TEMPLATES Python) @ trim (concat chunks)
          @ drop (62 + length ''# Script content here'') (SCRIPT_TEMPLATES Python))"
  by (simp only: generateScript_script_def js_replace_def python_placeholder
      expand_plain [OF assms] option.case prod.case)

lemma node_script_is_template:
  "generateScript_script (Some Node) (chunks, None) = Inr (SCRIPT_TEMPLATES Node)"
  by (simp only: generateScript_script_def js_replace_def node_placeholder option.case prod.case)

text \<open>
  Claim C5, at the failing input. For the \<open>node\<close> kind the template holds
  \<open>// Script content here\<close>, the text searched for is \<open># Script content here\<close>, and the
  script put up for review is the bare template: the reply \<open>console.log(1);\<close> occurs
  nowhere in it. For the \<open>bash\<close> kind the reply \<open>echo $$\<close> is inserted as \<open>echo $\<close>.
\<close>

theorem node_script_drops_reply:
  "generateScript_script (Some Node) ([''console.log(1);''], None) = Inr (SCRIPT_TEMPLATES Node) \<and>
   index_of ''console.log(1);'' (SCRIPT_TEMPLATES Node) = None \<and>
   generateScript_script (Some Bash) ([''echo $$''], None) =
     Inr (join_lines [''#!/bin/bash'', ''set -euo pipefail'',
            ''IFS=$'' @ [CHR 0x27, CHR 0x0A, CHR 0x09, CHR 0x27], '''', ''echo $'', ''''])"
  by code_simp

end
